theory Spec2Isabelle
  imports Complex_Main
begin

section \<open>Values, errors and page elements\<close>

text \<open>
  The script \<^verbatim>\<open>src/app.py\<close> is a Streamlit page: it unpickles a classifier, reads eleven
  sidebar widgets, puts their values in a list and, when the button was pressed, calls the
  classifier on that list and draws the answer.

  A Python number of the feature list is an \<^verbatim>\<open>int\<close> or a \<^verbatim>\<open>float\<close>. The script does no
  arithmetic on floats: a float is only compared with the bounds of its widget and stored, and
  both are exact, so a float is represented by the real number it denotes.
\<close>

datatype pynum = PyInt int | PyFloat real

text \<open>
  The exceptions the script can meet. \<open>PickleError\<close> and \<open>PredictError\<close> stand for whatever
  \<^verbatim>\<open>pickle.load\<close> and \<^verbatim>\<open>model.predict\<close> raise, with the text of the exception.
\<close>

datatype error =
    FileNotFoundError string
  | PickleError string
  | PredictError string
  | NameError string
  | IndexError
  | ValueError string

definition error_message :: "error \<Rightarrow> string" where
  "error_message e =
     (case e of
        FileNotFoundError path \<Rightarrow> ''[Errno 2] No such file or directory: '' @ [CHR 0x27] @ path @ [CHR 0x27]
      | PickleError msg \<Rightarrow> msg
      | PredictError msg \<Rightarrow> msg
      | NameError name \<Rightarrow> ''name '' @ [CHR 0x27] @ name @ [CHR 0x27] @ '' is not defined''
      | IndexError \<Rightarrow> ''index 0 is out of bounds for axis 0 with size 0''
      | ValueError msg \<Rightarrow> msg)"

text \<open>
  What a call of \<^verbatim>\<open>st.*\<close> draws. The bodies of the static texts are abbreviated to their
  heading; the texts that depend on the inputs are kept whole.
\<close>

datatype element =
    Title string
  | Write string
  | Markdown string
  | SidebarHeader string
  | NumberInput string
  | Slider string
  | Radio string
  | Button string
  | Success string
  | Dataframe "string list" "pynum list list"
  | ExceptionBox string

section \<open>The classifier and the file it is loaded from\<close>

text \<open>
  The handle \<^verbatim>\<open>model\<close> is used through \<^verbatim>\<open>model.predict\<close> only, so it is represented by that
  method: a batch of rows goes in, and either an exception or the labels come out. A label is
  represented by the text that an f-string prints for it.
\<close>

type_synonym model = "pynum list list \<Rightarrow> error + string list"

type_synonym filesystem = "string \<Rightarrow> string option"

type_synonym unpickler = "string \<Rightarrow> error + model"

definition model_path :: string where
  "model_path = ''decision_tree_model.pkl''"

section \<open>The form\<close>

text \<open>
  One value per widget, in the order of the calls of lines 50 to 93: what the user has entered,
  and, once the widgets have accepted it, what the calls return.
\<close>

record form =
  tower_id :: int
  latitude :: real
  longitude :: real
  signal_strength :: int
  male_count :: int
  female_count :: int
  crowd_density :: int
  hour :: int
  day_of_week :: int
  month :: int
  is_weekend_radio :: string
  button :: bool

text \<open>
  The widgets \<^verbatim>\<open>st.sidebar.number_input\<close>, \<^verbatim>\<open>st.sidebar.slider\<close> and \<^verbatim>\<open>st.sidebar.radio\<close>
  are functions of the Streamlit library, which is not under \<^verbatim>\<open>src/\<close>. A widget is a function
  from the entry of the user to the value the call returns, \<open>None\<close> when the widget rejects the
  entry; the bounds are the arguments that the source passes.
\<close>

text \<open>
  Modelled from the spec: \<^verbatim>\<open>number_input\<close> is missing. Section 4.2 of the spec says that each
  control enforces its declared domain itself, an entry outside it being rejected by the
  widget: an entry is accepted when it is not below \<^verbatim>\<open>min_value\<close> and not above \<^verbatim>\<open>max_value\<close>,
  where they are given.
\<close>

definition number_input :: "'a::linorder option \<Rightarrow> 'a option \<Rightarrow> 'a \<Rightarrow> 'a option" where
  "number_input min_value max_value x =
     (if (case min_value of None \<Rightarrow> True | Some lo \<Rightarrow> lo \<le> x)
         \<and> (case max_value of None \<Rightarrow> True | Some hi \<Rightarrow> x \<le> hi)
      then Some x else None)"

text \<open>
  Modelled from the spec: \<^verbatim>\<open>slider\<close> is missing. By the same sentence of section 4.2 it gives
  the integers from its minimum to its maximum, both included.
\<close>

definition slider :: "int \<Rightarrow> int \<Rightarrow> int \<Rightarrow> int option" where
  "slider min_value max_value x = (if min_value \<le> x \<and> x \<le> max_value then Some x else None)"

text \<open>
  Modelled from the spec: \<^verbatim>\<open>radio\<close> is missing. Section 3 of the spec has the flag derived from
  a yes/no choice: the radio gives one of the options it was called with.
\<close>

definition radio :: "string list \<Rightarrow> string \<Rightarrow> string option" where
  "radio options x = (if x \<in> set options then Some x else None)"

text \<open>The eleven calls of lines 50 to 84, with the arguments of the source.\<close>

definition tower_id_input :: "int \<Rightarrow> int option" where
  "tower_id_input = number_input (Some 1) None"

definition latitude_input :: "real \<Rightarrow> real option" where
  "latitude_input = number_input (Some (- 90)) (Some 90)"

definition longitude_input :: "real \<Rightarrow> real option" where
  "longitude_input = number_input (Some (- 180)) (Some 180)"

definition signal_strength_input :: "int \<Rightarrow> int option" where
  "signal_strength_input = number_input (Some (- 120)) (Some 0)"

definition male_count_input :: "int \<Rightarrow> int option" where
  "male_count_input = number_input (Some 0) None"

definition female_count_input :: "int \<Rightarrow> int option" where
  "female_count_input = number_input (Some 0) None"

definition crowd_density_input :: "int \<Rightarrow> int option" where
  "crowd_density_input = number_input (Some 0) None"

definition hour_input :: "int \<Rightarrow> int option" where
  "hour_input = slider 0 23"

definition day_of_week_input :: "int \<Rightarrow> int option" where
  "day_of_week_input = slider 0 6"

definition month_input :: "int \<Rightarrow> int option" where
  "month_input = slider 1 12"

definition is_weekend_input :: "string \<Rightarrow> string option" where
  "is_weekend_input = radio [''Yes'', ''No'']"

text \<open>
  The form as the script sees it: the entries when every widget has accepted its own, nothing
  otherwise.
\<close>

definition read_form :: "form \<Rightarrow> form option" where
  "read_form e =
     (if tower_id_input (tower_id e) = Some (tower_id e)
         \<and> latitude_input (latitude e) = Some (latitude e)
         \<and> longitude_input (longitude e) = Some (longitude e)
         \<and> signal_strength_input (signal_strength e) = Some (signal_strength e)
         \<and> male_count_input (male_count e) = Some (male_count e)
         \<and> female_count_input (female_count e) = Some (female_count e)
         \<and> crowd_density_input (crowd_density e) = Some (crowd_density e)
         \<and> hour_input (hour e) = Some (hour e)
         \<and> day_of_week_input (day_of_week e) = Some (day_of_week e)
         \<and> month_input (month e) = Some (month e)
         \<and> is_weekend_input (is_weekend_radio e) = Some (is_weekend_radio e)
      then Some e else None)"

section \<open>Lines 87 and 90: the feature vector\<close>

definition is_weekend :: "form \<Rightarrow> int" where
  "is_weekend w = (if is_weekend_radio w = ''Yes'' then 1 else 0)"

definition features :: "form \<Rightarrow> pynum list" where
  "features w =
     [PyInt (tower_id w), PyFloat (latitude w), PyFloat (longitude w),
      PyInt (signal_strength w), PyInt (male_count w), PyInt (female_count w),
      PyInt (crowd_density w), PyInt (hour w), PyInt (day_of_week w), PyInt (month w),
      PyInt (is_weekend w)]"

section \<open>The state of one execution of the script\<close>

text \<open>
  What an execution reads and changes: the files on disk, the global \<^verbatim>\<open>model\<close>, the calls of
  \<^verbatim>\<open>pickle.load\<close> and \<^verbatim>\<open>model.predict\<close> made so far, the elements drawn so far, and the
  exception that ended the execution, if one did. The script has no \<^verbatim>\<open>try\<close>: an exception
  raised anywhere leaves the script at once.
\<close>

record app =
  files :: filesystem
  model_var :: "model option"
  load_calls :: nat
  predict_calls :: "pynum list list list"
  rendered :: "element list"
  uncaught :: "error option"

definition startup :: "filesystem \<Rightarrow> app" where
  "startup fs =
     \<lparr>files = fs, model_var = None, load_calls = 0, predict_calls = [], rendered = [],
      uncaught = None\<rparr>"

definition st :: "element \<Rightarrow> app \<Rightarrow> app" where
  "st e s = s\<lparr>rendered := rendered s @ [e]\<rparr>"

text \<open>
  Lines 9 and 10: \<^verbatim>\<open>open(..., 'rb')\<close> raises when the file is absent; otherwise
  \<^verbatim>\<open>pickle.load\<close> is called once on the content, and its result is bound to \<^verbatim>\<open>model\<close>. The
  file is opened for reading, so \<open>files\<close> stays as it is.
\<close>

definition load_model :: "unpickler \<Rightarrow> app \<Rightarrow> app" where
  "load_model unpickle s =
     (case files s model_path of
        None \<Rightarrow> s\<lparr>uncaught := Some (FileNotFoundError model_path)\<rparr>
      | Some bytes \<Rightarrow>
          (case unpickle bytes of
             Inl e \<Rightarrow> s\<lparr>load_calls := Suc (load_calls s), uncaught := Some e\<rparr>
           | Inr m \<Rightarrow> s\<lparr>load_calls := Suc (load_calls s), model_var := Some m\<rparr>))"

text \<open>
  Lines 15 to 19: \<^verbatim>\<open>make_prediction\<close> reads the global \<^verbatim>\<open>model\<close> and calls its \<^verbatim>\<open>predict\<close>
  on the list that holds \<^verbatim>\<open>features\<close> as its only row.
\<close>

definition make_prediction :: "pynum list \<Rightarrow> app \<Rightarrow> (error + string list) \<times> app" where
  "make_prediction fv s =
     (case model_var s of
        None \<Rightarrow> (Inl (NameError ''model''), s)
      | Some m \<Rightarrow> (m [fv], s\<lparr>predict_calls := predict_calls s @ [[fv]]\<rparr>))"

text \<open>Lines 103 to 107: the column labels, and the check \<^verbatim>\<open>pd.DataFrame\<close> makes of them.\<close>

definition column_names :: "string list" where
  "column_names =
     [''Tower ID'', ''Latitude'', ''Longitude'', ''Signal Strength (dBm)'',
      ''Male Count'', ''Female Count'', ''Crowd Density (people/m'' @ [CHR 0xC2, CHR 0xB2] @ '')'',
      ''Hour'', ''Day of Week'', ''Month'', ''Is Weekend?'']"

definition DataFrame :: "pynum list list \<Rightarrow> string list \<Rightarrow> error + string list \<times> pynum list list" where
  "DataFrame rows columns =
     (if list_all (\<lambda>row. length row = length columns) rows then Inr (columns, rows)
      else Inl (ValueError ''columns passed do not match the data''))"

text \<open>Lines 23 to 47, lines 50 to 84 and lines 118 to 141: what is drawn whatever the inputs.\<close>

definition page_top :: "app \<Rightarrow> app" where
  "page_top s =
     st (SidebarHeader ''Input Parameters'')
       (st (Markdown ''How to use the app'')
         (st (Write ''This app helps predict the safety risk in a location'')
           (st (Title ''Women's Safety Risk Prediction'') s)))"

definition sidebar :: "app \<Rightarrow> app" where
  "sidebar s =
     s\<lparr>rendered := rendered s @
        [NumberInput ''Tower ID'', NumberInput ''Latitude'', NumberInput ''Longitude'',
         NumberInput ''Signal Strength (dBm)'', NumberInput ''Male Count'',
         NumberInput ''Female Count'', NumberInput ''Crowd Density'', Slider ''Hour'',
         Slider ''Day of Week'', Slider ''Month'', Radio ''Is Weekend?'']\<rparr>"

definition page_bottom :: "app \<Rightarrow> app" where
  "page_bottom s =
     st (Markdown ''About This App'')
       (st (Markdown ''Helpful Tips'')
         (st (Markdown ''Model Overview'') s))"

text \<open>
  Lines 94 to 115, the body of the \<^verbatim>\<open>if\<close> of line 93. The spinner of line 95 is on the page
  only while its block runs and is left out. \<^verbatim>\<open>prediction[0]\<close> raises on an empty answer.
\<close>

definition on_button :: "form \<Rightarrow> app \<Rightarrow> app" where
  "on_button w s =
     (case make_prediction (features w) s of
        (Inl e, s1) \<Rightarrow> s1\<lparr>uncaught := Some e\<rparr>
      | (Inr prediction, s1) \<Rightarrow>
          (case prediction of
             [] \<Rightarrow> s1\<lparr>uncaught := Some IndexError\<rparr>
           | label # _ \<Rightarrow>
               (let s2 = st (Write ''### Input Data:'') (st (Success (''Prediction: '' @ label)) s1)
                in case DataFrame [features w] column_names of
                     Inl e \<Rightarrow> s2\<lparr>uncaught := Some e\<rparr>
                   | Inr (columns, rows) \<Rightarrow>
                       st (Write ''### Explanation:'') (st (Dataframe columns rows) s2))))"

text \<open>The whole script, from line 9 to line 141, on the values \<open>w\<close> that the widgets return.\<close>

definition script :: "unpickler \<Rightarrow> form \<Rightarrow> app \<Rightarrow> app" where
  "script unpickle w s0 =
     (let s1 = load_model unpickle s0
      in case uncaught s1 of
           Some e \<Rightarrow> s1
         | None \<Rightarrow>
             (let s2 = st (Button ''Make Prediction'') (sidebar (page_top s1));
                  s3 = (if button w then on_button w s2 else s2)
              in case uncaught s3 of
                   Some e \<Rightarrow> s3
                 | None \<Rightarrow> page_bottom s3))"

section \<open>The Streamlit runtime around the script\<close>

text \<open>
  Modelled from the spec: the runtime that executes the script is the Streamlit library, which is
  not under \<^verbatim>\<open>src/\<close>. Section 7 of the spec has a failure shown to the user as a visible
  error: what the user sees after an execution is what the script has drawn, followed, when an
  exception left the script, by a box with the text of that exception.
\<close>

definition page :: "app \<Rightarrow> element list" where
  "page s =
     rendered s @ (case uncaught s of None \<Rightarrow> [] | Some e \<Rightarrow> [ExceptionBox (error_message e)])"

text \<open>
  Streamlit executes the script from its first line to its last once to show the page and once
  more for every interaction of the user; this is why line 93 can test the button with a plain
  \<^verbatim>\<open>if\<close>. Each execution starts from fresh globals, so it runs lines 9 and 10 again. A
  process is the list of its executions, one per list of widget values.
\<close>

definition process :: "unpickler \<Rightarrow> filesystem \<Rightarrow> form list \<Rightarrow> app list" where
  "process unpickle fs ws = map (\<lambda>w. script unpickle w (startup fs)) ws"

definition process_loads :: "unpickler \<Rightarrow> filesystem \<Rightarrow> form list \<Rightarrow> nat" where
  "process_loads unpickle fs ws = sum_list (map load_calls (process unpickle fs ws))"

section \<open>Fixtures\<close>

text \<open>
  The stub of section 8 of the spec, a classifier that answers "High Risk" for every row; a
  classifier that rejects every batch the way scikit-learn rejects one of the wrong width; a
  deserializer that gives it back for every file but the empty one, on which \<^verbatim>\<open>pickle.load\<close>
  raises \<^verbatim>\<open>EOFError: Ran out of input\<close>; a disk that holds an artifact, one that holds an empty
  file under its name, and one that holds nothing; the values the widgets return before the
  user has touched them (each number at its minimum, the first radio option, the button not
  pressed).
\<close>

definition stub_model :: model where
  "stub_model X = Inr (map (\<lambda>row. ''High Risk'') X)"

definition stub_unpickle :: unpickler where
  "stub_unpickle bytes = (if bytes = [] then Inl (PickleError ''Ran out of input'') else Inr stub_model)"

definition mismatched_model :: model where
  "mismatched_model X =
     Inl (PredictError ''X has 11 features, but DecisionTreeClassifier is expecting 10 features as input.'')"

definition disk_with_artifact :: filesystem where
  "disk_with_artifact p = (if p = model_path then Some ''artifact'' else None)"

definition disk_with_empty_artifact :: filesystem where
  "disk_with_empty_artifact p = (if p = model_path then Some [] else None)"

definition empty_disk :: filesystem where
  "empty_disk p = None"

definition default_form :: form where
  "default_form =
     \<lparr>tower_id = 1, latitude = - 90, longitude = - 180, signal_strength = - 120, male_count = 0,
      female_count = 0, crowd_density = 0, hour = 0, day_of_week = 0, month = 1,
      is_weekend_radio = ''Yes'', button = False\<rparr>"

text \<open>Python's \<^verbatim>\<open>p in s\<close> on strings.\<close>

fun starts_with :: "string \<Rightarrow> string \<Rightarrow> bool" where
  "starts_with s [] = True"
| "starts_with [] (c # p) = False"
| "starts_with (d # s) (c # p) = (d = c \<and> starts_with s p)"

fun contains :: "string \<Rightarrow> string \<Rightarrow> bool" where
  "contains [] p = (p = [])"
| "contains (d # s) p = (starts_with (d # s) p \<or> contains s p)"

section \<open>The artifact\<close>

text \<open>
  Modelled from the spec: the artifact \<^verbatim>\<open>decision_tree_model.pkl\<close> is a file of the repository
  that is not under \<^verbatim>\<open>src/\<close>. Section 3 of the spec has it trained on rows of a fixed count of
  fields, and section 4.2 has inference take a collection of rows and give one label for a
  row. A classifier trained on \<open>n\<close> fields accepts every batch whose rows have \<open>n\<close> entries and
  answers with one label per row.
\<close>

definition trained_on :: "nat \<Rightarrow> model \<Rightarrow> bool" where
  "trained_on n m =
     (\<forall>X. list_all (\<lambda>row. length row = n) X \<longrightarrow> (\<exists>labels. m X = Inr labels \<and> length labels = length X))"

section \<open>Where an execution stands at line 93\<close>

text \<open>
  The elements drawn before line 93 and after line 115, in the order of the calls, and the two
  kinds of element that show a result.
\<close>

definition drawn_before_handler :: "element list" where
  "drawn_before_handler =
     [Title ''Women's Safety Risk Prediction'',
      Write ''This app helps predict the safety risk in a location'',
      Markdown ''How to use the app'', SidebarHeader ''Input Parameters'',
      NumberInput ''Tower ID'', NumberInput ''Latitude'', NumberInput ''Longitude'',
      NumberInput ''Signal Strength (dBm)'', NumberInput ''Male Count'',
      NumberInput ''Female Count'', NumberInput ''Crowd Density'', Slider ''Hour'',
      Slider ''Day of Week'', Slider ''Month'', Radio ''Is Weekend?'',
      Button ''Make Prediction'']"

definition drawn_after_handler :: "element list" where
  "drawn_after_handler =
     [Markdown ''Model Overview'', Markdown ''Helpful Tips'', Markdown ''About This App'']"

definition is_result :: "element \<Rightarrow> bool" where
  "is_result x = (case x of Success _ \<Rightarrow> True | Dataframe _ _ \<Rightarrow> True | _ \<Rightarrow> False)"

text \<open>The state in which an execution reaches line 93 when lines 9 and 10 have loaded \<open>m\<close>.\<close>

definition at_handler :: "filesystem \<Rightarrow> model \<Rightarrow> app" where
  "at_handler fs m =
     \<lparr>files = fs, model_var = Some m, load_calls = 1, predict_calls = [],
      rendered = drawn_before_handler, uncaught = None\<rparr>"

section \<open>Lemmas about one execution\<close>

lemma reach_handler:
  "fs model_path = Some bytes \<Longrightarrow> unpickle bytes = Inr m \<Longrightarrow>
   st (Button ''Make Prediction'') (sidebar (page_top (load_model unpickle (startup fs)))) = at_handler fs m"
  by (simp add: load_model_def startup_def page_top_def sidebar_def st_def at_handler_def
      drawn_before_handler_def)

lemma load_model_uncaught_ok:
  "fs model_path = Some bytes \<Longrightarrow> unpickle bytes = Inr m \<Longrightarrow>
   uncaught (load_model unpickle (startup fs)) = None"
  by (simp add: load_model_def startup_def)

lemma script_loaded:
  assumes "fs model_path = Some bytes" and "unpickle bytes = Inr m"
  shows "script unpickle w (startup fs) =
     (let s3 = (if button w then on_button w (at_handler fs m) else at_handler fs m)
      in case uncaught s3 of Some e \<Rightarrow> s3 | None \<Rightarrow> page_bottom s3)"
proof -
  have a: "st (Button ''Make Prediction'') (sidebar (page_top (load_model unpickle (startup fs))))
      = at_handler fs m"
    using assms by (rule reach_handler)
  have b: "uncaught (load_model unpickle (startup fs)) = None"
    using assms by (rule load_model_uncaught_ok)
  show ?thesis
    by (simp add: script_def Let_def a b)
qed

lemma make_prediction_at_handler:
  "make_prediction fv (at_handler fs m) = (m [fv], (at_handler fs m)\<lparr>predict_calls := [[fv]]\<rparr>)"
  by (simp add: make_prediction_def at_handler_def)

lemma DataFrame_features:
  "DataFrame [features w] column_names = Inr (column_names, [features w])"
  by (simp add: DataFrame_def features_def column_names_def)

lemma on_button_raise:
  "m [features w] = Inl e \<Longrightarrow>
   on_button w (at_handler fs m) = (at_handler fs m)\<lparr>predict_calls := [[features w]], uncaught := Some e\<rparr>"
  by (simp add: on_button_def make_prediction_at_handler)

lemma on_button_empty:
  "m [features w] = Inr [] \<Longrightarrow>
   on_button w (at_handler fs m) =
     (at_handler fs m)\<lparr>predict_calls := [[features w]], uncaught := Some IndexError\<rparr>"
  by (simp add: on_button_def make_prediction_at_handler)

lemma on_button_label:
  "m [features w] = Inr (l # ls) \<Longrightarrow>
   on_button w (at_handler fs m) =
     (at_handler fs m)\<lparr>predict_calls := [[features w]],
        rendered := drawn_before_handler @
          [Success (''Prediction: '' @ l), Write ''### Input Data:'',
           Dataframe column_names [features w], Write ''### Explanation:'']\<rparr>"
  by (simp add: on_button_def make_prediction_at_handler DataFrame_features st_def Let_def)
     (simp add: at_handler_def)

lemma predict_calls_on_button:
  "predict_calls (on_button w (at_handler fs m)) = [[features w]]"
  by (simp add: on_button_def make_prediction_at_handler DataFrame_features st_def Let_def
      split: sum.splits list.splits)

lemma predict_calls_page_bottom: "predict_calls (page_bottom s) = predict_calls s"
  by (simp add: page_bottom_def st_def)

lemma script_click_calls:
  assumes "fs model_path = Some bytes" and "unpickle bytes = Inr m" and "button w"
  shows "predict_calls (script unpickle w (startup fs)) = [[features w]]"
proof -
  have "script unpickle w (startup fs) =
     (let s3 = (if button w then on_button w (at_handler fs m) else at_handler fs m)
      in case uncaught s3 of Some e \<Rightarrow> s3 | None \<Rightarrow> page_bottom s3)"
    using assms(1,2) by (rule script_loaded)
  then show ?thesis
    using assms(3)
    by (simp add: Let_def predict_calls_on_button predict_calls_page_bottom split: option.splits)
qed


lemma script_click:
  assumes "fs model_path = Some bytes" and "unpickle bytes = Inr m" and "button w"
  shows "script unpickle w (startup fs) =
     (let s3 = on_button w (at_handler fs m)
      in case uncaught s3 of Some e \<Rightarrow> s3 | None \<Rightarrow> page_bottom s3)"
proof -
  have "script unpickle w (startup fs) =
     (let s3 = (if button w then on_button w (at_handler fs m) else at_handler fs m)
      in case uncaught s3 of Some e \<Rightarrow> s3 | None \<Rightarrow> page_bottom s3)"
    using assms(1,2) by (rule script_loaded)
  then show ?thesis
    using assms(3) by simp
qed

lemma script_click_raise:
  assumes "fs model_path = Some bytes" and "unpickle bytes = Inr m" and "button w"
    and "m [features w] = Inl e"
  shows "script unpickle w (startup fs) =
     (at_handler fs m)\<lparr>predict_calls := [[features w]], uncaught := Some e\<rparr>"
proof -
  have "script unpickle w (startup fs) =
     (let s3 = on_button w (at_handler fs m)
      in case uncaught s3 of Some e \<Rightarrow> s3 | None \<Rightarrow> page_bottom s3)"
    using assms(1,2,3) by (rule script_click)
  then show ?thesis
    by (simp add: on_button_raise [where m = m and w = w and e = e, OF assms(4)])
qed

lemma script_click_label:
  assumes "fs model_path = Some bytes" and "unpickle bytes = Inr m" and "button w"
    and "m [features w] = Inr (l # ls)"
  shows "script unpickle w (startup fs) =
     (at_handler fs m)\<lparr>predict_calls := [[features w]],
        rendered := drawn_before_handler @
          [Success (''Prediction: '' @ l), Write ''### Input Data:'',
           Dataframe column_names [features w], Write ''### Explanation:''] @
          drawn_after_handler\<rparr>"
proof -
  have "script unpickle w (startup fs) =
     (let s3 = on_button w (at_handler fs m)
      in case uncaught s3 of Some e \<Rightarrow> s3 | None \<Rightarrow> page_bottom s3)"
    using assms(1,2,3) by (rule script_click)
  then show ?thesis
    by (simp add: on_button_label [where m = m and w = w and l = l and ls = ls, OF assms(4)])
       (simp add: at_handler_def page_bottom_def st_def drawn_after_handler_def)
qed

lemma stub_model_row: "stub_model [fv] = Inr [''High Risk'']"
  by (simp add: stub_model_def)

lemma length_features: "length (features w) = 11"
  by (simp add: features_def)

lemma trained_on_one_row:
  assumes "trained_on (length fv) m"
  shows "\<exists>l. m [fv] = Inr [l]"
proof -
  have "list_all (\<lambda>row. length row = length fv) [fv]"
    by simp
  with assms have "\<exists>labels. m [fv] = Inr labels \<and> length labels = length [fv]"
    unfolding trained_on_def by blast
  then obtain labels where r: "m [fv] = Inr labels" and n: "length labels = 1"
    by auto
  from n obtain l where "labels = [l]"
    by (cases labels) auto
  with r show ?thesis by blast
qed

lemma trained_on_stub_model: "trained_on n stub_model"
  by (simp add: trained_on_def stub_model_def)

lemma starts_with_append: "starts_with (p @ s) p"
  by (induction p) auto

lemma contains_append: "contains (a @ p @ b) p"
proof (induction a)
  case Nil
  show ?case
    by (cases "p @ b") (use starts_with_append [of p b] in auto)
next
  case (Cons c a)
  then show ?case by simp
qed

lemma script_no_file:
  "fs model_path = None \<Longrightarrow>
   script unpickle w (startup fs) = (startup fs)\<lparr>uncaught := Some (FileNotFoundError model_path)\<rparr>"
  by (simp add: script_def load_model_def startup_def)

lemma script_bad_file:
  "fs model_path = Some bytes \<Longrightarrow> unpickle bytes = Inl e \<Longrightarrow>
   script unpickle w (startup fs) = (startup fs)\<lparr>load_calls := 1, uncaught := Some e\<rparr>"
  by (simp add: script_def load_model_def startup_def)

lemma on_button_keeps:
  "files (on_button w s) = files s \<and> model_var (on_button w s) = model_var s
   \<and> load_calls (on_button w s) = load_calls s"
  by (simp add: on_button_def make_prediction_def DataFrame_def st_def Let_def
      split: option.splits sum.splits list.splits prod.splits)

lemma page_bottom_keeps:
  "files (page_bottom s) = files s \<and> model_var (page_bottom s) = model_var s
   \<and> load_calls (page_bottom s) = load_calls s"
  by (simp add: page_bottom_def st_def)

lemma script_loaded_keeps:
  assumes "fs model_path = Some bytes" and "unpickle bytes = Inr m"
  shows "files (script unpickle w (startup fs)) = fs
     \<and> model_var (script unpickle w (startup fs)) = Some m
     \<and> load_calls (script unpickle w (startup fs)) = 1"
proof -
  have "script unpickle w (startup fs) =
     (let s3 = (if button w then on_button w (at_handler fs m) else at_handler fs m)
      in case uncaught s3 of Some e \<Rightarrow> s3 | None \<Rightarrow> page_bottom s3)"
    using assms by (rule script_loaded)
  moreover have "files (at_handler fs m) = fs \<and> model_var (at_handler fs m) = Some m
     \<and> load_calls (at_handler fs m) = 1"
    by (simp add: at_handler_def)
  ultimately show ?thesis
    by (simp add: Let_def on_button_keeps page_bottom_keeps split: option.splits)
qed

section \<open>Claims\<close>

text \<open>
  C1. When the artifact has loaded and the button is pressed, the script makes one call of
  \<^verbatim>\<open>model.predict\<close>, on one row, and that row is the eleven inputs in the order tower_id,
  latitude, longitude, signal_strength, male_count, female_count, crowd_density, hour,
  day_of_week, month, is_weekend.
\<close>

theorem feature_vector_order:
  assumes "fs model_path = Some bytes" and "unpickle bytes = Inr m" and "button w"
  shows "predict_calls (script unpickle w (startup fs)) =
     [[[PyInt (tower_id w), PyFloat (latitude w), PyFloat (longitude w),
        PyInt (signal_strength w), PyInt (male_count w), PyInt (female_count w),
        PyInt (crowd_density w), PyInt (hour w), PyInt (day_of_week w), PyInt (month w),
        PyInt (if is_weekend_radio w = ''Yes'' then 1 else 0)]]]"
proof -
  have "predict_calls (script unpickle w (startup fs)) = [[features w]]"
    using assms by (rule script_click_calls)
  then show ?thesis
    by (simp add: features_def is_weekend_def)
qed

theorem feature_vector_order_witness:
  "disk_with_artifact model_path = Some ''artifact''
   \<and> stub_unpickle ''artifact'' = Inr stub_model
   \<and> button (default_form\<lparr>button := True\<rparr>)
   \<and> predict_calls (script stub_unpickle (default_form\<lparr>button := True\<rparr>) (startup disk_with_artifact)) =
     [[[PyInt 1, PyFloat (- 90), PyFloat (- 180), PyInt (- 120), PyInt 0, PyInt 0, PyInt 0,
        PyInt 0, PyInt 0, PyInt 1, PyInt 1]]]"
proof -
  have a: "disk_with_artifact model_path = Some ''artifact''"
    by (simp add: disk_with_artifact_def)
  have b: "stub_unpickle ''artifact'' = Inr stub_model"
    by (simp add: stub_unpickle_def)
  have c: "button (default_form\<lparr>button := True\<rparr>)"
    by simp
  show ?thesis
    using feature_vector_order [of disk_with_artifact "''artifact''" stub_unpickle stub_model
        "default_form\<lparr>button := True\<rparr>", OF a b c] a b
    by (simp add: default_form_def)
qed

text \<open>
  C2. When the button is pressed, \<^verbatim>\<open>model.predict\<close> is called once, on the batch whose only row
  is the feature vector. When it answers with one label, the script ends without an exception
  and has drawn the success message "Prediction: " followed by that label and the table of the
  inputs. With the stub that answers "High Risk", the message is exactly
  "Prediction: High Risk" and the table has the eleven column labels of lines 103 to 107 over
  the eleven inputs in the same order.
\<close>

theorem prediction_is_rendered:
  assumes "fs model_path = Some bytes" and "unpickle bytes = Inr m" and "button w"
  shows "predict_calls (script unpickle w (startup fs)) = [[features w]]
     \<and> (m [features w] = Inr [l] \<longrightarrow>
          uncaught (script unpickle w (startup fs)) = None
          \<and> rendered (script unpickle w (startup fs)) =
            drawn_before_handler @
            [Success (''Prediction: '' @ l), Write ''### Input Data:'',
             Dataframe column_names [features w], Write ''### Explanation:''] @
            drawn_after_handler)
     \<and> uncaught (script stub_unpickle w (startup disk_with_artifact)) = None
     \<and> rendered (script stub_unpickle w (startup disk_with_artifact)) =
            drawn_before_handler @
            [Success ''Prediction: High Risk'', Write ''### Input Data:'',
             Dataframe
               [''Tower ID'', ''Latitude'', ''Longitude'', ''Signal Strength (dBm)'',
                ''Male Count'', ''Female Count'',
                ''Crowd Density (people/m'' @ [CHR 0xC2, CHR 0xB2] @ '')'',
                ''Hour'', ''Day of Week'', ''Month'', ''Is Weekend?'']
               [[PyInt (tower_id w), PyFloat (latitude w), PyFloat (longitude w),
                 PyInt (signal_strength w), PyInt (male_count w), PyInt (female_count w),
                 PyInt (crowd_density w), PyInt (hour w), PyInt (day_of_week w),
                 PyInt (month w), PyInt (is_weekend w)]],
             Write ''### Explanation:''] @
            drawn_after_handler"
proof (intro conjI [where Q = "_ \<and> _"] impI)
  show "predict_calls (script unpickle w (startup fs)) = [[features w]]"
    using assms by (rule script_click_calls)
next
  assume one: "m [features w] = Inr [l]"
  have "script unpickle w (startup fs) =
     (at_handler fs m)\<lparr>predict_calls := [[features w]],
        rendered := drawn_before_handler @
          [Success (''Prediction: '' @ l), Write ''### Input Data:'',
           Dataframe column_names [features w], Write ''### Explanation:''] @
          drawn_after_handler\<rparr>"
    using assms one by (rule script_click_label)
  then show "uncaught (script unpickle w (startup fs)) = None
          \<and> rendered (script unpickle w (startup fs)) =
            drawn_before_handler @
            [Success (''Prediction: '' @ l), Write ''### Input Data:'',
             Dataframe column_names [features w], Write ''### Explanation:''] @
            drawn_after_handler"
    by (simp add: at_handler_def)
next
  have a: "disk_with_artifact model_path = Some ''artifact''"
    by (simp add: disk_with_artifact_def)
  have b: "stub_unpickle ''artifact'' = Inr stub_model"
    by (simp add: stub_unpickle_def)
  have "script stub_unpickle w (startup disk_with_artifact) =
     (at_handler disk_with_artifact stub_model)\<lparr>predict_calls := [[features w]],
        rendered := drawn_before_handler @
          [Success (''Prediction: '' @ ''High Risk''), Write ''### Input Data:'',
           Dataframe column_names [features w], Write ''### Explanation:''] @
          drawn_after_handler\<rparr>"
    using a b assms(3) stub_model_row by (rule script_click_label)
  then show "uncaught (script stub_unpickle w (startup disk_with_artifact)) = None
     \<and> rendered (script stub_unpickle w (startup disk_with_artifact)) =
            drawn_before_handler @
            [Success ''Prediction: High Risk'', Write ''### Input Data:'',
             Dataframe
               [''Tower ID'', ''Latitude'', ''Longitude'', ''Signal Strength (dBm)'',
                ''Male Count'', ''Female Count'',
                ''Crowd Density (people/m'' @ [CHR 0xC2, CHR 0xB2] @ '')'',
                ''Hour'', ''Day of Week'', ''Month'', ''Is Weekend?'']
               [[PyInt (tower_id w), PyFloat (latitude w), PyFloat (longitude w),
                 PyInt (signal_strength w), PyInt (male_count w), PyInt (female_count w),
                 PyInt (crowd_density w), PyInt (hour w), PyInt (day_of_week w),
                 PyInt (month w), PyInt (is_weekend w)]],
             Write ''### Explanation:''] @
            drawn_after_handler"
    by (simp add: at_handler_def column_names_def features_def)
qed

theorem prediction_is_rendered_witness:
  "disk_with_artifact model_path = Some ''artifact''
   \<and> stub_unpickle ''artifact'' = Inr stub_model
   \<and> button (default_form\<lparr>button := True\<rparr>)
   \<and> stub_model [features (default_form\<lparr>button := True\<rparr>)] = Inr [''High Risk'']
   \<and> predict_calls (script stub_unpickle (default_form\<lparr>button := True\<rparr>) (startup disk_with_artifact)) =
        [[features (default_form\<lparr>button := True\<rparr>)]]
   \<and> rendered (script stub_unpickle (default_form\<lparr>button := True\<rparr>) (startup disk_with_artifact)) =
        drawn_before_handler @
        [Success ''Prediction: High Risk'', Write ''### Input Data:'',
         Dataframe column_names [features (default_form\<lparr>button := True\<rparr>)],
         Write ''### Explanation:''] @
        drawn_after_handler"
proof -
  have a: "disk_with_artifact model_path = Some ''artifact''"
    by (simp add: disk_with_artifact_def)
  have b: "stub_unpickle ''artifact'' = Inr stub_model"
    by (simp add: stub_unpickle_def)
  have c: "button (default_form\<lparr>button := True\<rparr>)"
    by simp
  have d: "stub_model [features (default_form\<lparr>button := True\<rparr>)] = Inr [''High Risk'']"
    by (rule stub_model_row)
  show ?thesis
    using prediction_is_rendered [of disk_with_artifact "''artifact''" stub_unpickle stub_model
        "default_form\<lparr>button := True\<rparr>" "''High Risk''", OF a b c] a b d
    by simp
qed

text \<open>
  C3. The last entry of the assembled vector, the weekend flag, is 1 when the radio returns
  "Yes" and 0 when it returns "No", and whatever the radio returns it is 0 or 1.
\<close>

theorem is_weekend_flag_binary:
  "features (w\<lparr>is_weekend_radio := ''Yes''\<rparr>) ! 10 = PyInt 1
   \<and> features (w\<lparr>is_weekend_radio := ''No''\<rparr>) ! 10 = PyInt 0
   \<and> (features w ! 10 = PyInt 0 \<or> features w ! 10 = PyInt 1)"
  by (simp add: features_def is_weekend_def)

text \<open>
  C4. For a classifier trained on eleven fields and every assignment of the inputs, within the
  declared domains or not, pressing the button makes the one call of \<^verbatim>\<open>model.predict\<close> return
  exactly one label; no exception leaves the script, and the label is drawn.
\<close>

theorem inference_returns_one_label:
  assumes "fs model_path = Some bytes" and "unpickle bytes = Inr m" and "button w"
    and "trained_on 11 m"
  shows "\<exists>l. m [features w] = Inr [l]
     \<and> fst (make_prediction (features w) (at_handler fs m)) = Inr [l]
     \<and> uncaught (script unpickle w (startup fs)) = None
     \<and> predict_calls (script unpickle w (startup fs)) = [[features w]]
     \<and> rendered (script unpickle w (startup fs)) =
            drawn_before_handler @
            [Success (''Prediction: '' @ l), Write ''### Input Data:'',
             Dataframe column_names [features w], Write ''### Explanation:''] @
            drawn_after_handler"
proof -
  from assms(4) have "trained_on (length (features w)) m"
    by (simp add: length_features)
  then obtain l where one: "m [features w] = Inr [l]"
    using trained_on_one_row by blast
  have s: "script unpickle w (startup fs) =
     (at_handler fs m)\<lparr>predict_calls := [[features w]],
        rendered := drawn_before_handler @
          [Success (''Prediction: '' @ l), Write ''### Input Data:'',
           Dataframe column_names [features w], Write ''### Explanation:''] @
          drawn_after_handler\<rparr>"
    using assms(1,2,3) one by (rule script_click_label)
  have "fst (make_prediction (features w) (at_handler fs m)) = Inr [l]"
    by (simp add: make_prediction_at_handler one)
  with one s show ?thesis
    by (simp add: at_handler_def)
qed

theorem inference_returns_one_label_witness:
  "disk_with_artifact model_path = Some ''artifact''
   \<and> stub_unpickle ''artifact'' = Inr stub_model
   \<and> button (default_form\<lparr>button := True\<rparr>)
   \<and> trained_on 11 stub_model
   \<and> (\<exists>l. stub_model [features (default_form\<lparr>button := True\<rparr>)] = Inr [l]
        \<and> uncaught (script stub_unpickle (default_form\<lparr>button := True\<rparr>)
              (startup disk_with_artifact)) = None)"
proof -
  have a: "disk_with_artifact model_path = Some ''artifact''"
    by (simp add: disk_with_artifact_def)
  have b: "stub_unpickle ''artifact'' = Inr stub_model"
    by (simp add: stub_unpickle_def)
  have c: "button (default_form\<lparr>button := True\<rparr>)"
    by simp
  have d: "trained_on 11 stub_model"
    by (rule trained_on_stub_model)
  show ?thesis
    using inference_returns_one_label [of disk_with_artifact "''artifact''" stub_unpickle
        stub_model "default_form\<lparr>button := True\<rparr>", OF a b c d] a b d
    by auto
qed

text \<open>
  C5, as the claim states it, fails: when the file is there but cannot be deserialized, the
  exception that ends the execution is the one \<^verbatim>\<open>pickle.load\<close> raised, and its text need not
  name the path. On an empty file it is "Ran out of input".
\<close>

theorem load_failure_counterexample:
  "uncaught (script stub_unpickle default_form (startup disk_with_empty_artifact)) =
     Some (PickleError ''Ran out of input'')
   \<and> error_message (PickleError ''Ran out of input'') = ''Ran out of input''
   \<and> \<not> contains ''Ran out of input'' model_path"
proof -
  have a: "disk_with_empty_artifact model_path = Some []"
    by (simp add: disk_with_empty_artifact_def)
  have b: "stub_unpickle [] = Inl (PickleError ''Ran out of input'')"
    by (simp add: stub_unpickle_def)
  have "script stub_unpickle default_form (startup disk_with_empty_artifact) =
     (startup disk_with_empty_artifact)\<lparr>load_calls := 1,
        uncaught := Some (PickleError ''Ran out of input'')\<rparr>"
    using a b by (rule script_bad_file)
  then have "uncaught (script stub_unpickle default_form (startup disk_with_empty_artifact)) =
     Some (PickleError ''Ran out of input'')"
    by simp
  moreover have "\<not> contains ''Ran out of input'' model_path"
    by (simp add: model_path_def)
  ultimately show ?thesis by (simp add: error_message_def)
qed

text \<open>
  C5, amended. When the artifact file is missing or cannot be deserialized, an execution of the
  script ends at lines 9 and 10 with the exception uncaught, before anything is drawn and
  before any call of \<^verbatim>\<open>model.predict\<close>, whatever the inputs and the button. When the file is
  missing the exception is \<^verbatim>\<open>FileNotFoundError\<close> and its text holds the path; when the file
  cannot be deserialized it is the exception of the deserializer.
\<close>

theorem load_failure_aborts:
  "(fs model_path = None \<longrightarrow>
      uncaught (script unpickle w (startup fs)) = Some (FileNotFoundError model_path)
      \<and> contains (error_message (FileNotFoundError model_path)) model_path
      \<and> rendered (script unpickle w (startup fs)) = []
      \<and> predict_calls (script unpickle w (startup fs)) = [])
   \<and> (fs model_path = Some bytes \<and> unpickle bytes = Inl e \<longrightarrow>
      uncaught (script unpickle w (startup fs)) = Some e
      \<and> rendered (script unpickle w (startup fs)) = []
      \<and> predict_calls (script unpickle w (startup fs)) = [])"
proof (intro conjI [where Q = "_ \<longrightarrow> _"] impI)
  assume a: "fs model_path = None"
  have s: "script unpickle w (startup fs) =
      (startup fs)\<lparr>uncaught := Some (FileNotFoundError model_path)\<rparr>"
    using a by (rule script_no_file)
  have c: "contains (error_message (FileNotFoundError model_path)) model_path"
    using contains_append [of "''[Errno 2] No such file or directory: '' @ [CHR 0x27]"
        model_path "[CHR 0x27]"]
    by (simp add: error_message_def)
  show "uncaught (script unpickle w (startup fs)) = Some (FileNotFoundError model_path)
      \<and> contains (error_message (FileNotFoundError model_path)) model_path
      \<and> rendered (script unpickle w (startup fs)) = []
      \<and> predict_calls (script unpickle w (startup fs)) = []"
    using c by (simp add: s) (simp add: startup_def)
next
  assume "fs model_path = Some bytes \<and> unpickle bytes = Inl e"
  then have a: "fs model_path = Some bytes" and b: "unpickle bytes = Inl e"
    by simp_all
  have s: "script unpickle w (startup fs) = (startup fs)\<lparr>load_calls := 1, uncaught := Some e\<rparr>"
    using a b by (rule script_bad_file)
  show "uncaught (script unpickle w (startup fs)) = Some e
      \<and> rendered (script unpickle w (startup fs)) = []
      \<and> predict_calls (script unpickle w (startup fs)) = []"
    by (simp add: s) (simp add: startup_def)
qed

theorem load_failure_aborts_witness:
  "empty_disk model_path = None
   \<and> uncaught (script stub_unpickle (default_form\<lparr>button := True\<rparr>) (startup empty_disk)) =
       Some (FileNotFoundError ''decision_tree_model.pkl'')
   \<and> predict_calls (script stub_unpickle (default_form\<lparr>button := True\<rparr>) (startup empty_disk)) = []
   \<and> disk_with_empty_artifact model_path = Some []
   \<and> stub_unpickle [] = Inl (PickleError ''Ran out of input'')
   \<and> uncaught (script stub_unpickle (default_form\<lparr>button := True\<rparr>)
         (startup disk_with_empty_artifact)) = Some (PickleError ''Ran out of input'')
   \<and> predict_calls (script stub_unpickle (default_form\<lparr>button := True\<rparr>)
         (startup disk_with_empty_artifact)) = []"
proof -
  have a: "empty_disk model_path = None"
    by (simp add: empty_disk_def)
  have b: "disk_with_empty_artifact model_path = Some [] \<and> stub_unpickle [] = Inl (PickleError ''Ran out of input'')"
    by (simp add: disk_with_empty_artifact_def stub_unpickle_def)
  show ?thesis
    using load_failure_aborts [of empty_disk stub_unpickle
        "default_form\<lparr>button := True\<rparr>" "[]" "PickleError ''Ran out of input''"]
      load_failure_aborts [of disk_with_empty_artifact stub_unpickle
        "default_form\<lparr>button := True\<rparr>" "[]" "PickleError ''Ran out of input''"]
      a b
    by (simp add: model_path_def)
qed

text \<open>
  C6. When the call of \<^verbatim>\<open>model.predict\<close> raises, the exception leaves the script uncaught; the
  call was made once and is not made again; the page shows what was drawn before the handler
  followed by the text of the exception, and neither a success message nor a table.
\<close>

theorem inference_failure_is_shown:
  assumes "fs model_path = Some bytes" and "unpickle bytes = Inr m" and "button w"
    and "m [features w] = Inl e"
  shows "uncaught (script unpickle w (startup fs)) = Some e
     \<and> predict_calls (script unpickle w (startup fs)) = [[features w]]
     \<and> page (script unpickle w (startup fs)) =
          drawn_before_handler @ [ExceptionBox (error_message e)]
     \<and> filter is_result (page (script unpickle w (startup fs))) = []"
proof -
  have "script unpickle w (startup fs) =
     (at_handler fs m)\<lparr>predict_calls := [[features w]], uncaught := Some e\<rparr>"
    using assms by (rule script_click_raise)
  then show ?thesis
    by (simp add: page_def at_handler_def drawn_before_handler_def is_result_def)
qed

theorem inference_failure_is_shown_witness:
  "disk_with_artifact model_path = Some ''artifact''
   \<and> (\<lambda>bytes. Inr mismatched_model) ''artifact'' = (Inr mismatched_model :: error + model)
   \<and> button (default_form\<lparr>button := True\<rparr>)
   \<and> mismatched_model [features (default_form\<lparr>button := True\<rparr>)] =
        Inl (PredictError ''X has 11 features, but DecisionTreeClassifier is expecting 10 features as input.'')
   \<and> page (script (\<lambda>bytes. Inr mismatched_model) (default_form\<lparr>button := True\<rparr>)
        (startup disk_with_artifact)) =
        drawn_before_handler @
        [ExceptionBox ''X has 11 features, but DecisionTreeClassifier is expecting 10 features as input.'']
   \<and> predict_calls (script (\<lambda>bytes. Inr mismatched_model) (default_form\<lparr>button := True\<rparr>)
        (startup disk_with_artifact)) = [[features (default_form\<lparr>button := True\<rparr>)]]"
proof -
  have a: "disk_with_artifact model_path = Some ''artifact''"
    by (simp add: disk_with_artifact_def)
  have b: "(\<lambda>bytes. Inr mismatched_model) ''artifact'' = (Inr mismatched_model :: error + model)"
    by simp
  have c: "button (default_form\<lparr>button := True\<rparr>)"
    by simp
  have d: "mismatched_model [features (default_form\<lparr>button := True\<rparr>)] =
        Inl (PredictError ''X has 11 features, but DecisionTreeClassifier is expecting 10 features as input.'')"
    by (simp add: mismatched_model_def)
  show ?thesis
    using inference_failure_is_shown [of disk_with_artifact "''artifact''"
        "\<lambda>bytes. Inr mismatched_model" mismatched_model "default_form\<lparr>button := True\<rparr>"
        "PredictError ''X has 11 features, but DecisionTreeClassifier is expecting 10 features as input.''",
        OF a b c d] a d
    by (simp add: error_message_def)
qed

text \<open>
  C7. The signal strength widget accepts -120 and 0 and rejects -121 and 1; every value it
  accepts, and so every signal strength of a form the script reads, lies between -120 and 0.
\<close>

theorem signal_strength_bounds:
  "signal_strength_input (- 120) = Some (- 120)
   \<and> signal_strength_input 0 = Some 0
   \<and> signal_strength_input (- 121) = None
   \<and> signal_strength_input 1 = None
   \<and> (signal_strength_input x = Some v \<longrightarrow> - 120 \<le> v \<and> v \<le> 0)
   \<and> (read_form e = Some w \<longrightarrow> - 120 \<le> signal_strength w \<and> signal_strength w \<le> 0)"
  by (auto simp add: signal_strength_input_def number_input_def read_form_def split: if_splits)

theorem signal_strength_bounds_witness:
  "signal_strength_input (- 50) = Some (- 50) \<and> - 120 \<le> (- 50 :: int) \<and> (- 50 :: int) \<le> 0
   \<and> read_form default_form = Some default_form
   \<and> - 120 \<le> signal_strength default_form \<and> signal_strength default_form \<le> 0"
proof -
  have a: "signal_strength_input (- 50) = Some (- 50)"
    by (simp add: signal_strength_input_def number_input_def)
  have b: "read_form default_form = Some default_form"
    by (simp add: read_form_def default_form_def tower_id_input_def latitude_input_def
        longitude_input_def signal_strength_input_def male_count_input_def
        female_count_input_def crowd_density_input_def hour_input_def day_of_week_input_def
        month_input_def is_weekend_input_def number_input_def slider_def radio_def)
  show ?thesis
    using signal_strength_bounds [of "- 50" "- 50" default_form default_form] a b
    by simp
qed

text \<open>
  C8. Latitude -90.0, longitude 180.0, hour 0, day of week 6, month 12 and the radio choice
  "Yes" are each accepted by their widget, a form that holds them is read as it is, and the
  last entry of the vector assembled from such a form is 1.
\<close>

theorem boundary_inputs_accepted:
  "latitude_input (- 90) = Some (- 90)
   \<and> longitude_input 180 = Some 180
   \<and> hour_input 0 = Some 0
   \<and> day_of_week_input 6 = Some 6
   \<and> month_input 12 = Some 12
   \<and> is_weekend_input ''Yes'' = Some ''Yes''
   \<and> read_form (default_form\<lparr>latitude := - 90, longitude := 180, hour := 0, day_of_week := 6,
        month := 12, is_weekend_radio := ''Yes''\<rparr>) =
      Some (default_form\<lparr>latitude := - 90, longitude := 180, hour := 0, day_of_week := 6,
        month := 12, is_weekend_radio := ''Yes''\<rparr>)
   \<and> last (features (w\<lparr>latitude := - 90, longitude := 180, hour := 0, day_of_week := 6,
        month := 12, is_weekend_radio := ''Yes''\<rparr>)) = PyInt 1"
  by (simp add: read_form_def default_form_def tower_id_input_def latitude_input_def
        longitude_input_def signal_strength_input_def male_count_input_def
        female_count_input_def crowd_density_input_def hour_input_def day_of_week_input_def
        month_input_def is_weekend_input_def number_input_def slider_def radio_def
        features_def is_weekend_def)

text \<open>
  C9, as the claim states it, fails: every execution of the script runs lines 9 and 10, so a
  process that shows the page and then serves one press of the button has loaded the artifact
  twice.
\<close>

theorem model_loaded_once_counterexample:
  "process_loads stub_unpickle disk_with_artifact [default_form, default_form\<lparr>button := True\<rparr>] = 2
   \<and> process_loads stub_unpickle disk_with_artifact [default_form, default_form\<lparr>button := True\<rparr>] \<noteq> 1"
proof -
  have a: "disk_with_artifact model_path = Some ''artifact''"
    by (simp add: disk_with_artifact_def)
  have b: "stub_unpickle ''artifact'' = Inr stub_model"
    by (simp add: stub_unpickle_def)
  have "\<And>w. load_calls (script stub_unpickle w (startup disk_with_artifact)) = 1"
    using script_loaded_keeps [of disk_with_artifact "''artifact''" stub_unpickle stub_model, OF a b]
    by simp
  then show ?thesis
    by (simp add: process_loads_def process_def)
qed

text \<open>
  C9, amended. When the artifact loads, every execution of the script loads it exactly once,
  ends with the global \<^verbatim>\<open>model\<close> bound to the loaded handle and leaves the files as they were,
  so a process has loaded the artifact as many times as it has executed the script. A call of
  \<^verbatim>\<open>make_prediction\<close> answers with what the handle bound to \<^verbatim>\<open>model\<close> predicts and leaves the
  handle, the files and the count of loads unchanged.
\<close>

theorem model_loaded_once_per_execution:
  assumes "fs model_path = Some bytes" and "unpickle bytes = Inr m"
  shows "list_all (\<lambda>r. load_calls r = 1 \<and> model_var r = Some m \<and> files r = fs)
           (process unpickle fs ws)
     \<and> process_loads unpickle fs ws = length ws
     \<and> (model_var s = Some m \<longrightarrow>
          fst (make_prediction fv s) = m [fv]
          \<and> model_var (snd (make_prediction fv s)) = Some m
          \<and> files (snd (make_prediction fv s)) = files s
          \<and> load_calls (snd (make_prediction fv s)) = load_calls s)"
proof -
  have k: "\<And>w. files (script unpickle w (startup fs)) = fs
     \<and> model_var (script unpickle w (startup fs)) = Some m
     \<and> load_calls (script unpickle w (startup fs)) = 1"
    using assms by (rule script_loaded_keeps)
  have "list_all (\<lambda>r. load_calls r = 1 \<and> model_var r = Some m \<and> files r = fs)
           (process unpickle fs ws)"
    by (simp add: process_def list_all_iff k)
  moreover have "process_loads unpickle fs ws = length ws"
    by (simp add: process_loads_def process_def comp_def k sum_list_triv)
  moreover have "model_var s = Some m \<longrightarrow>
          fst (make_prediction fv s) = m [fv]
          \<and> model_var (snd (make_prediction fv s)) = Some m
          \<and> files (snd (make_prediction fv s)) = files s
          \<and> load_calls (snd (make_prediction fv s)) = load_calls s"
    by (simp add: make_prediction_def)
  ultimately show ?thesis by simp
qed

theorem model_loaded_once_per_execution_witness:
  "disk_with_artifact model_path = Some ''artifact''
   \<and> stub_unpickle ''artifact'' = Inr stub_model
   \<and> model_var (at_handler disk_with_artifact stub_model) = Some stub_model
   \<and> list_all (\<lambda>r. load_calls r = 1 \<and> model_var r = Some stub_model \<and> files r = disk_with_artifact)
        (process stub_unpickle disk_with_artifact [default_form, default_form\<lparr>button := True\<rparr>])
   \<and> process_loads stub_unpickle disk_with_artifact [default_form, default_form\<lparr>button := True\<rparr>] = 2
   \<and> fst (make_prediction (features default_form) (at_handler disk_with_artifact stub_model)) =
        Inr [''High Risk'']
   \<and> model_var (snd (make_prediction (features default_form) (at_handler disk_with_artifact stub_model))) =
        Some stub_model"
proof -
  have a: "disk_with_artifact model_path = Some ''artifact''"
    by (simp add: disk_with_artifact_def)
  have b: "stub_unpickle ''artifact'' = Inr stub_model"
    by (simp add: stub_unpickle_def)
  have c: "model_var (at_handler disk_with_artifact stub_model) = Some stub_model"
    by (simp add: at_handler_def)
  show ?thesis
    using model_loaded_once_per_execution [where fs = disk_with_artifact and bytes = "''artifact''"
        and unpickle = stub_unpickle and m = stub_model
        and s = "at_handler disk_with_artifact stub_model" and fv = "features default_form"
        and ws = "[default_form, default_form\<lparr>button := True\<rparr>]", OF a b] a b c
    by (simp add: stub_model_def)
qed

text \<open>
  C10. The Tower ID widget accepts 1 and rejects 0 and every negative number; every value it
  accepts is at least 1, and the first entry of the vector assembled from a form the script
  reads is a positive integer.
\<close>

theorem tower_id_positive:
  "tower_id_input 1 = Some 1
   \<and> tower_id_input 0 = None
   \<and> (x < 0 \<longrightarrow> tower_id_input x = None)
   \<and> (tower_id_input y = Some v \<longrightarrow> 1 \<le> v)
   \<and> (read_form e = Some w \<longrightarrow> (\<exists>n. features w ! 0 = PyInt n \<and> 0 < n))"
  by (auto simp add: tower_id_input_def number_input_def read_form_def features_def
      split: if_splits)

theorem tower_id_positive_witness:
  "(- 3 :: int) < 0 \<and> tower_id_input (- 3) = None
   \<and> tower_id_input 5 = Some 5 \<and> (1 :: int) \<le> 5
   \<and> read_form default_form = Some default_form
   \<and> (\<exists>n. features default_form ! 0 = PyInt n \<and> 0 < n)"
proof -
  have a: "tower_id_input 5 = Some 5"
    by (simp add: tower_id_input_def number_input_def)
  have b: "read_form default_form = Some default_form"
    by (simp add: read_form_def default_form_def tower_id_input_def latitude_input_def
        longitude_input_def signal_strength_input_def male_count_input_def
        female_count_input_def crowd_density_input_def hour_input_def day_of_week_input_def
        month_input_def is_weekend_input_def number_input_def slider_def radio_def)
  show ?thesis
    using tower_id_positive [of "- 3" 5 5 default_form default_form] a b
    by simp
qed

end
